theory Spec2Isabelle
  imports Main "HOL-Library.Word"
begin

unbundle bit_operations_syntax

section \<open>uname26: run a program with the uname 2.6 personality\<close>

text \<open>
  The program is a single function, \<^verbatim>\<open>main\<close> of \<^verbatim>\<open>uname26.c\<close>:
  \<^verbatim>\<open>
  #define UNAME26 0x0020000

  int main(int ac, char **av)
  {
          if (!av[1]) {
                  fprintf(stderr, "Usage: uname26 program ...\n"
                                  "Run program with the uname 2.6 personality\n");
                  exit(1);
          }
          if (personality(PER_LINUX | UNAME26) < 0)
                  perror("personality"), exit(1);

          execvp(av[1], av + 1);
          fprintf(stderr, "Cannot execute %s: %s\n", av[1], strerror(errno));
          exit(1);
  }
  \<close>
  Everything it does is an effect on its process: it reads its argument vector, calls the
  operating system twice, writes to standard error and exits. The model makes each of
  these explicit. The operating system is a parameter; the run of \<open>main\<close> is a
  function of the argument vector, the operating system and the state of the process,
  and returns how the run ended, the state it left and the trace of its effects.
\<close>

subsection \<open>The process and the operating system\<close>

text \<open>
  The part of the process that the two system calls read and write: the personality
  attribute, which the kernel keeps as an unsigned 32-bit mask, and \<^verbatim>\<open>errno\<close>.
\<close>

record kstate =
  persona :: "32 word"
  errno :: int

text \<open>
  What the program takes from the system and its headers.
  \<^item> \<open>PER_LINUX\<close> is the constant of \<^verbatim>\<open><sys/personality.h>\<close>; the header is not
    part of the sources, so the value is a parameter.
  \<^item> \<open>personality p k\<close> is the call \<^verbatim>\<open>personality(p)\<close> in state \<open>k\<close>: the \<^verbatim>\<open>int\<close> it
    returns and the state it leaves.
  \<^item> \<open>execvp file args k\<close> is the call \<^verbatim>\<open>execvp(file, args)\<close>: \<open>None\<close> when the image is
    replaced (the call does not return), \<open>Some k'\<close> when it returns, leaving state \<open>k'\<close>.
    The value it returns is ignored by the program.
  \<^item> \<open>strerror e\<close> is the text of error number \<open>e\<close>.
\<close>

record os =
  PER_LINUX :: "32 word"
  personality :: "32 word \<Rightarrow> kstate \<Rightarrow> int \<times> kstate"
  execvp :: "string \<Rightarrow> string list \<Rightarrow> kstate \<Rightarrow> kstate option"
  strerror :: "int \<Rightarrow> string"

text \<open>What a run leaves behind, in order.\<close>

datatype event =
  Stderr string
  | Personality "32 word" int
  | Execvp string "string list"

record world =
  kern :: kstate
  trace :: "event list"

text \<open>
  How a run ends: \<^verbatim>\<open>exit(n)\<close>, the replacement of the process image by \<open>execvp\<close>, or
  behaviour that C leaves undefined (a read outside the argument vector).
\<close>

datatype outcome =
  Exit int
  | Replaced string "string list"
  | Undefined

subsection \<open>The argument vector\<close>

text \<open>
  \<^verbatim>\<open>av\<close> points to an array of pointers; a cell is a string or the null pointer
  (\<open>None\<close>). \<open>argv ss\<close> is the vector a process is started with for the strings \<open>ss\<close>:
  one cell for each, then the null pointer, so that \<^verbatim>\<open>av[ac]\<close> is null for
  \<open>ac = length ss\<close>.
\<close>

definition argv :: "string list \<Rightarrow> string option list" where
  "argv ss = map Some ss @ [None]"

text \<open>\<^verbatim>\<open>av[i]\<close>: the cell, or \<open>None\<close> when \<open>i\<close> is outside the array.\<close>

definition c_index :: "'a list \<Rightarrow> nat \<Rightarrow> 'a option" where
  "c_index xs i = (if i < length xs then Some (xs ! i) else None)"

text \<open>
  The strings of a null-terminated vector, as \<open>execvp\<close> reads its second argument:
  cell after cell up to the first null pointer; \<open>None\<close> when the array ends before one.
\<close>

fun argv_strings :: "string option list \<Rightarrow> string list option" where
  "argv_strings [] = None"
| "argv_strings (None # cells) = Some []"
| "argv_strings (Some s # cells) = map_option ((#) s) (argv_strings cells)"

subsection \<open>The library calls\<close>

definition emit :: "event \<Rightarrow> world \<Rightarrow> world" where
  "emit e w = w\<lparr>trace := trace w @ [e]\<rparr>"

definition fprintf_stderr :: "string \<Rightarrow> world \<Rightarrow> world" where
  "fprintf_stderr s w = emit (Stderr s) w"

text \<open>
  \<^verbatim>\<open>perror(s)\<close> writes \<open>s\<close>, a colon and a space (when \<open>s\<close> is not empty), the text of
  \<^verbatim>\<open>errno\<close> and a newline to standard error.
\<close>

definition perror :: "os \<Rightarrow> string \<Rightarrow> world \<Rightarrow> world" where
  "perror sys s w =
     fprintf_stderr ((if s = [] then [] else s @ '': '') @ strerror sys (errno (kern w)) @ ''\<newline>'') w"

definition call_personality :: "os \<Rightarrow> 32 word \<Rightarrow> world \<Rightarrow> int \<times> world" where
  "call_personality sys p w =
     (case personality sys p (kern w) of
        (r, k') \<Rightarrow> (r, emit (Personality p r) (w\<lparr>kern := k'\<rparr>)))"

text \<open>\<open>Inl\<close>: the image was replaced; \<open>Inr\<close>: the call returned.\<close>

definition call_execvp :: "os \<Rightarrow> string \<Rightarrow> string list \<Rightarrow> world \<Rightarrow> world + world" where
  "call_execvp sys file args w =
     (let w' = emit (Execvp file args) w in
      case execvp sys file args (kern w') of
        None \<Rightarrow> Inl w'
      | Some k' \<Rightarrow> Inr (w'\<lparr>kern := k'\<rparr>))"

subsection \<open>The program\<close>

definition UNAME26 :: "32 word" where
  "UNAME26 = 0x0020000"

definition usage :: string where
  "usage = ''Usage: uname26 program ...\<newline>Run program with the uname 2.6 personality\<newline>''"

definition main :: "os \<Rightarrow> int \<Rightarrow> string option list \<Rightarrow> kstate \<Rightarrow> outcome \<times> world" where
  "main sys ac av k =
     (let w = \<lparr>kern = k, trace = []\<rparr> in
      case c_index av 1 of
        None \<Rightarrow> (Undefined, w)
      | Some None \<Rightarrow> (Exit 1, fprintf_stderr usage w)
      | Some (Some target) \<Rightarrow>
          (case call_personality sys (PER_LINUX sys OR UNAME26) w of
             (r, w1) \<Rightarrow>
               if r < 0 then (Exit 1, perror sys ''personality'' w1)
               else
                 (case argv_strings (drop 1 av) of
                    None \<Rightarrow> (Undefined, w1)
                  | Some args \<Rightarrow>
                      (case call_execvp sys target args w1 of
                         Inl w2 \<Rightarrow> (Replaced target args, w2)
                       | Inr w2 \<Rightarrow>
                           (Exit 1,
                            fprintf_stderr
                              (''Cannot execute '' @ target @ '': '' @
                               strerror sys (errno (kern w2)) @ ''\<newline>'')
                              w2)))))"

subsection \<open>Reading a trace\<close>

fun stderr_of :: "event list \<Rightarrow> string" where
  "stderr_of [] = []"
| "stderr_of (Stderr s # es) = s @ stderr_of es"
| "stderr_of (e # es) = stderr_of es"

fun personality_requests :: "event list \<Rightarrow> 32 word list" where
  "personality_requests [] = []"
| "personality_requests (Personality p r # es) = p # personality_requests es"
| "personality_requests (e # es) = personality_requests es"

fun execvp_calls :: "event list \<Rightarrow> (string \<times> string list) list" where
  "execvp_calls [] = []"
| "execvp_calls (Execvp file args # es) = (file, args) # execvp_calls es"
| "execvp_calls (e # es) = execvp_calls es"

text \<open>
  The order of the two calls in a trace: every \<open>Execvp\<close> comes after a
  \<open>Personality\<close> that was not answered with a negative value. The flag says
  whether such a call has been seen.
\<close>

fun personality_set_before_execvp :: "bool \<Rightarrow> event list \<Rightarrow> bool" where
  "personality_set_before_execvp seen [] = True"
| "personality_set_before_execvp seen (Personality p r # es) =
     personality_set_before_execvp (seen \<or> 0 \<le> r) es"
| "personality_set_before_execvp seen (Execvp file args # es) =
     (seen \<and> personality_set_before_execvp seen es)"
| "personality_set_before_execvp seen (Stderr s # es) = personality_set_before_execvp seen es"

subsection \<open>Two systems for the examples\<close>

text \<open>
  \<open>os_example\<close> behaves as Linux does on the paths the examples take: \<open>PER_LINUX\<close>
  is 0, \<open>personality\<close> installs the value asked for and returns the previous one,
  \<open>execvp\<close> finds \<^verbatim>\<open>/bin/echo\<close> and \<^verbatim>\<open>uname26\<close> and fails with \<^verbatim>\<open>ENOENT\<close> (2) on any
  other name; the previous personality is returned as the \<^verbatim>\<open>int\<close> of the same 32
  bits, and \<^verbatim>\<open>errno\<close> is left as it was. \<open>os_refusing\<close> differs in \<open>personality\<close>,
  which fails: it returns -1 with \<^verbatim>\<open>EINVAL\<close> (22) and changes nothing else.
\<close>

definition os_example :: os where
  "os_example =
     \<lparr>PER_LINUX = 0,
      personality = (\<lambda>p k. (sint (persona k), k\<lparr>persona := p\<rparr>)),
      execvp = (\<lambda>file args k.
                  if file \<in> {''/bin/echo'', ''uname26''} then None else Some (k\<lparr>errno := 2\<rparr>)),
      strerror = (\<lambda>e. if e = 0 then ''Success''
                      else if e = 2 then ''No such file or directory''
                      else if e = 22 then ''Invalid argument'' else ''Unknown error'')\<rparr>"

definition os_refusing :: os where
  "os_refusing = os_example\<lparr>personality := (\<lambda>p k. (- 1, k\<lparr>errno := 22\<rparr>))\<rparr>"

definition k_start :: kstate where
  "k_start = \<lparr>persona = 0, errno = 0\<rparr>"

section \<open>Properties\<close>

text \<open>
  In the theorems an invocation is the vector \<open>argv (prog # args)\<close>: the program name
  and the arguments after it, as the command line gives them. The operating system
  \<open>sys\<close>, the state \<open>k\<close> of the process and the count \<open>ac\<close> are arbitrary.
\<close>

subsection \<open>Auxiliary facts\<close>

lemma argv_strings_argv: "argv_strings (argv ss) = Some ss"
  by (induction ss) (simp_all add: argv_def)

text \<open>The run with a target, by the answers of the two calls.\<close>

lemma main_target:
  assumes "personality sys (PER_LINUX sys OR UNAME26) k = (r, k1)"
  shows "main sys ac (argv (prog # target # rest)) k =
     (if r < 0 then
        (Exit 1,
         \<lparr>kern = k1,
          trace = [Personality (PER_LINUX sys OR UNAME26) r,
                   Stderr (''personality: '' @ strerror sys (errno k1) @ ''\<newline>'')]\<rparr>)
      else
        (case execvp sys target (target # rest) k1 of
           None \<Rightarrow>
             (Replaced target (target # rest),
              \<lparr>kern = k1,
               trace = [Personality (PER_LINUX sys OR UNAME26) r,
                        Execvp target (target # rest)]\<rparr>)
         | Some k2 \<Rightarrow>
             (Exit 1,
              \<lparr>kern = k2,
               trace = [Personality (PER_LINUX sys OR UNAME26) r,
                        Execvp target (target # rest),
                        Stderr (''Cannot execute '' @ target @ '': '' @
                                strerror sys (errno k2) @ ''\<newline>'')]\<rparr>)))"
  using assms
  by (simp add: main_def argv_def c_index_def call_personality_def call_execvp_def
      perror_def fprintf_stderr_def emit_def argv_strings_argv [unfolded argv_def]
      split: option.split)

lemma uname26_bit: "bit UNAME26 n = (n = 17)"
proof -
  have "bit (push_bit 17 (1 :: 32 word)) n = (n = 17)"
    unfolding bit_push_bit_iff bit_1_iff by (auto simp: possible_bit_word)
  moreover have "UNAME26 = push_bit 17 1"
    by (simp add: UNAME26_def)
  ultimately show ?thesis by (simp only:)
qed

lemma sint_or_uname26: "(0 \<le> sint (x OR UNAME26)) = (0 \<le> sint (x :: 32 word))"
proof -
  have "(sint (x OR UNAME26) < 0) = (sint x < 0)"
    unfolding bit_last_iff [symmetric] by (simp add: bit_or_iff uname26_bit)
  then show ?thesis by linarith
qed

lemma outcome_with_program_name:
  "fst (main sys ac (argv (prog # args)) k) = Exit 1 \<or>
   (\<exists>file as. fst (main sys ac (argv (prog # args)) k) = Replaced file as)"
proof (cases args)
  case Nil
  then show ?thesis
    by (simp add: main_def argv_def c_index_def)
next
  case (Cons target rest)
  obtain r k1 where "personality sys (PER_LINUX sys OR UNAME26) k = (r, k1)"
    by (cases "personality sys (PER_LINUX sys OR UNAME26) k")
  then show ?thesis
    unfolding Cons by (simp add: main_target split: option.split)
qed

subsection \<open>The missing argument\<close>

text \<open>
  C3. Started with the program name and nothing after it, the program writes the two
  lines of the usage message to standard error and exits with status 1; it calls
  neither \<open>personality\<close> nor \<open>execvp\<close>, and leaves the state of the process as it was.
\<close>

theorem missing_argument_usage:
  "main sys ac (argv [prog]) k =
     (Exit 1,
      \<lparr>kern = k,
       trace = [Stderr ''Usage: uname26 program ...\<newline>Run program with the uname 2.6 personality\<newline>'']\<rparr>)"
  by (simp add: main_def argv_def c_index_def fprintf_stderr_def emit_def usage_def)

subsection \<open>The personality request\<close>

text \<open>
  With a target present the program makes the personality request. It takes the error
  path (standard error gets \<^verbatim>\<open>personality: \<close>, the system's text for \<^verbatim>\<open>errno\<close> and a
  newline; exit status 1; no \<open>execvp\<close> call) exactly when the call returns a negative
  value, and otherwise goes on to the \<open>execvp\<close> call for the target.
\<close>

lemma personality_error_iff_negative_return:
  assumes "personality sys (PER_LINUX sys OR UNAME26) k = (r, k1)"
  shows "(fst (main sys ac (argv (prog # target # rest)) k) = Exit 1 \<and>
          stderr_of (trace (snd (main sys ac (argv (prog # target # rest)) k))) =
            ''personality: '' @ strerror sys (errno k1) @ ''\<newline>'') = (r < 0)
       \<and> (r < 0 \<longrightarrow>
            main sys ac (argv (prog # target # rest)) k =
              (Exit 1,
               \<lparr>kern = k1,
                trace = [Personality (PER_LINUX sys OR UNAME26) r,
                         Stderr (''personality: '' @ strerror sys (errno k1) @ ''\<newline>'')]\<rparr>))
       \<and> (execvp_calls (trace (snd (main sys ac (argv (prog # target # rest)) k))) = []) =
            (r < 0)
       \<and> (take 2 (trace (snd (main sys ac (argv (prog # target # rest)) k))) =
            [Personality (PER_LINUX sys OR UNAME26) r, Execvp target (target # rest)]) =
            (\<not> r < 0)"
  by (simp add: main_target [OF assms] split: option.split)

text \<open>
  C2. The claim is that the error report and exit status 1 come exactly when the system
  rejects the personality request. The program takes a negative return value for a
  rejection, but a call that succeeds returns the previous personality, and that is
  negative as an \<^verbatim>\<open>int\<close> when bit 31 was set. Started with the personality
  \<^verbatim>\<open>0x80000000\<close>, the request is accepted: the call installs \<^verbatim>\<open>0x0020000\<close>, leaves
  \<^verbatim>\<open>errno\<close> at 0 and returns -2147483648. The program nevertheless writes
  \<^verbatim>\<open>personality: Success\<close> to standard error and exits with status 1, without the
  \<open>execvp\<close> call.
\<close>

theorem accepted_request_reported_as_error:
  "personality os_example (PER_LINUX os_example OR UNAME26) \<lparr>persona = 0x80000000, errno = 0\<rparr> =
     (- 2147483648, \<lparr>persona = 0x0020000, errno = 0\<rparr>)
   \<and> main os_example 2 (argv [''uname26'', ''/bin/echo'']) \<lparr>persona = 0x80000000, errno = 0\<rparr> =
     (Exit 1,
      \<lparr>kern = \<lparr>persona = 0x0020000, errno = 0\<rparr>,
       trace = [Personality 0x0020000 (- 2147483648),
                Stderr ''personality: Success\<newline>'']\<rparr>)"
  by (simp add: main_def argv_def c_index_def call_personality_def perror_def
      fprintf_stderr_def emit_def os_example_def UNAME26_def)

text \<open>
  C5. The value passed to \<open>personality\<close> is \<open>PER_LINUX\<close> or'ed with \<open>UNAME26\<close>, which is
  \<^verbatim>\<open>0x0020000\<close>, the single bit 17. Whatever the argument vector, a run requests no
  other value, and with a target present it requests this one.
\<close>

theorem personality_request_is_per_linux_or_uname26:
  "personality_requests (trace (snd (main sys ac av k))) \<in> {[], [PER_LINUX sys OR UNAME26]}
   \<and> personality_requests (trace (snd (main sys ac (argv (prog # target # rest)) k))) =
       [PER_LINUX sys OR 0x0020000]
   \<and> UNAME26 = 0x0020000
   \<and> (\<forall>n. bit UNAME26 n = (n = 17))"
proof -
  have "personality_requests (trace (snd (main sys ac av k))) \<in> {[], [PER_LINUX sys OR UNAME26]}"
    by (auto simp: main_def call_personality_def call_execvp_def perror_def fprintf_stderr_def
        emit_def Let_def split: option.splits prod.splits sum.splits)
  moreover have "personality_requests (trace (snd (main sys ac (argv (prog # target # rest)) k))) =
      [PER_LINUX sys OR UNAME26]"
    by (cases "personality sys (PER_LINUX sys OR UNAME26) k")
      (simp add: main_target split: option.split)
  ultimately show ?thesis
    by (simp add: uname26_bit) (simp add: UNAME26_def)
qed

text \<open>
  C6. In every run the trace holds at most one \<open>personality\<close> call, and an \<open>execvp\<close>
  call only after a \<open>personality\<close> call that returned a value that is not negative:
  the attribute is changed at most once, and the image is never replaced without it.
\<close>

theorem personality_once_and_before_execvp:
  "length (personality_requests (trace (snd (main sys ac av k)))) \<le> 1 \<and>
   personality_set_before_execvp False (trace (snd (main sys ac av k)))"
  by (auto simp: main_def call_personality_def call_execvp_def perror_def fprintf_stderr_def
      emit_def Let_def split: option.splits prod.splits sum.splits)

subsection \<open>The replacement of the image\<close>

text \<open>
  C1, amended. With a target present and the personality call returning a value that is
  not negative, the program calls \<open>execvp\<close> once, with the target name as given both as the file to
  search for and as argument zero, followed by the arguments after the target, unchanged
  and in order. The image is replaced by that program exactly when the call does not
  return, and then nothing has been written to standard error.
\<close>

theorem launch_passes_target_and_arguments:
  assumes "personality sys (PER_LINUX sys OR UNAME26) k = (r, k1)" and "\<not> r < 0"
  shows "execvp_calls (trace (snd (main sys ac (argv (prog # target # rest)) k))) =
           [(target, target # rest)]
       \<and> (fst (main sys ac (argv (prog # target # rest)) k) = Replaced target (target # rest)) =
           (execvp sys target (target # rest) k1 = None)
       \<and> (execvp sys target (target # rest) k1 = None \<longrightarrow>
            main sys ac (argv (prog # target # rest)) k =
              (Replaced target (target # rest),
               \<lparr>kern = k1,
                trace = [Personality (PER_LINUX sys OR UNAME26) r,
                         Execvp target (target # rest)]\<rparr>))"
  using assms(2) by (simp add: main_target [OF assms(1)] split: option.split)

theorem launch_passes_target_and_arguments_witness:
  "main os_example 4 (argv [''uname26'', ''/bin/echo'', ''hello'', ''world'']) k_start =
     (Replaced ''/bin/echo'' [''/bin/echo'', ''hello'', ''world''],
      \<lparr>kern = \<lparr>persona = 0x0020000, errno = 0\<rparr>,
       trace = [Personality 0x0020000 0,
                Execvp ''/bin/echo'' [''/bin/echo'', ''hello'', ''world'']]\<rparr>)"
  using launch_passes_target_and_arguments [of os_example k_start 0
      "\<lparr>persona = 0x0020000, errno = 0\<rparr>" 4 "''uname26''" "''/bin/echo''"
      "[''hello'', ''world'']"]
  by (simp add: os_example_def k_start_def UNAME26_def)

text \<open>
  C1 as stated, that every invocation with a target replaces the image, fails: where
  the personality call returns a negative value (here -1, the system rejecting the
  request) the program exits before any \<open>execvp\<close> call, and where \<open>execvp\<close> does not find the target the program reports it and exits.
\<close>

theorem launch_without_replacement_counterexample:
  "main os_refusing 3 (argv [''uname26'', ''/bin/echo'', ''hello'']) k_start =
     (Exit 1,
      \<lparr>kern = \<lparr>persona = 0, errno = 22\<rparr>,
       trace = [Personality 0x0020000 (- 1), Stderr ''personality: Invalid argument\<newline>'']\<rparr>)
   \<and> main os_example 3 (argv [''uname26'', ''nosuch'', ''hello'']) k_start =
     (Exit 1,
      \<lparr>kern = \<lparr>persona = 0x0020000, errno = 2\<rparr>,
       trace = [Personality 0x0020000 0, Execvp ''nosuch'' [''nosuch'', ''hello''],
                Stderr ''Cannot execute nosuch: No such file or directory\<newline>'']\<rparr>)"
  by (simp add: main_def argv_def c_index_def call_personality_def call_execvp_def
      perror_def fprintf_stderr_def emit_def os_refusing_def os_example_def k_start_def
      UNAME26_def)

text \<open>
  C4. When the \<open>execvp\<close> call returns, the program writes \<^verbatim>\<open>Cannot execute \<close>, the
  target name as given, a colon and a space, the system's text for the \<^verbatim>\<open>errno\<close> that
  \<open>execvp\<close> left, and a newline to standard error, and exits with status 1.
\<close>

theorem execvp_failure_reported:
  assumes "personality sys (PER_LINUX sys OR UNAME26) k = (r, k1)" and "\<not> r < 0"
    and "execvp sys target (target # rest) k1 = Some k2"
  shows "main sys ac (argv (prog # target # rest)) k =
           (Exit 1,
            \<lparr>kern = k2,
             trace = [Personality (PER_LINUX sys OR UNAME26) r,
                      Execvp target (target # rest),
                      Stderr (''Cannot execute '' @ target @ '': '' @
                              strerror sys (errno k2) @ ''\<newline>'')]\<rparr>)
       \<and> stderr_of (trace (snd (main sys ac (argv (prog # target # rest)) k))) =
           ''Cannot execute '' @ target @ '': '' @ strerror sys (errno k2) @ ''\<newline>''"
  using assms(2,3) by (simp add: main_target [OF assms(1)])

theorem execvp_failure_reported_witness:
  "stderr_of (trace (snd (main os_example 2 (argv [''uname26'', ''nosuch'']) k_start))) =
     ''Cannot execute nosuch: No such file or directory\<newline>'' \<and>
   fst (main os_example 2 (argv [''uname26'', ''nosuch'']) k_start) = Exit 1"
  using execvp_failure_reported [of os_example k_start 0 "\<lparr>persona = 0x0020000, errno = 0\<rparr>"
      "''nosuch''" "[]" "\<lparr>persona = 0x0020000, errno = 2\<rparr>" 2 "''uname26''"]
  by (simp add: os_example_def k_start_def UNAME26_def)

text \<open>
  C10. When the personality request was accepted and has taken effect, and the \<open>execvp\<close>
  call then returns without touching the attribute, the program exits with status 1 in
  the state that \<open>execvp\<close> left: it has made the one personality request and none to
  restore the previous value, so the attribute is still \<open>PER_LINUX\<close> or'ed with
  \<open>UNAME26\<close>.
\<close>

theorem execvp_failure_keeps_personality:
  assumes "personality sys (PER_LINUX sys OR UNAME26) k = (r, k1)" and "\<not> r < 0"
    and "persona k1 = PER_LINUX sys OR UNAME26"
    and "execvp sys target (target # rest) k1 = Some k2"
    and "persona k2 = persona k1"
  shows "fst (main sys ac (argv (prog # target # rest)) k) = Exit 1
       \<and> personality_requests (trace (snd (main sys ac (argv (prog # target # rest)) k))) =
           [PER_LINUX sys OR UNAME26]
       \<and> kern (snd (main sys ac (argv (prog # target # rest)) k)) = k2
       \<and> persona (kern (snd (main sys ac (argv (prog # target # rest)) k))) =
           PER_LINUX sys OR UNAME26"
  using assms(2-) by (simp add: main_target [OF assms(1)])

theorem execvp_failure_keeps_personality_witness:
  "fst (main os_example 2 (argv [''uname26'', ''nosuch'']) k_start) = Exit 1 \<and>
   persona (kern (snd (main os_example 2 (argv [''uname26'', ''nosuch'']) k_start))) = 0x0020000 \<and>
   persona k_start = 0"
  using execvp_failure_keeps_personality [of os_example k_start 0
      "\<lparr>persona = 0x0020000, errno = 0\<rparr>" "''nosuch''" "[]"
      "\<lparr>persona = 0x0020000, errno = 2\<rparr>" 2 "''uname26''"]
  by (simp add: os_example_def k_start_def UNAME26_def)

subsection \<open>Exit status\<close>

text \<open>
  C7. Whatever the arguments after the program name and whatever the two system calls
  answer, a run ends in \<^verbatim>\<open>exit(1)\<close> or in the replacement of the image; no run exits
  with another status.
\<close>

theorem exit_status_one_or_replaced:
  "fst (main sys ac (argv (prog # args)) k) = Exit 1 \<or>
   (\<exists>file as. fst (main sys ac (argv (prog # args)) k) = Replaced file as)"
  by (rule outcome_with_program_name)

subsection \<open>Nested invocations\<close>

text \<open>
  C8. Take a system whose \<open>personality\<close> call answers the program's request as Linux
  does (it installs the value and returns the previous one), whose \<open>PER_LINUX\<close> has
  the sign bit clear, and whose \<open>execvp\<close> leaves the attribute alone when it fails.
  Let a first run replace the image by the program itself, called with a target. Then
  the second run starts with the attribute already at \<open>PER_LINUX\<close> or'ed with \<open>UNAME26\<close>;
  its personality call returns that value, which is not negative, so the run does not
  take the error path but goes on to the \<open>execvp\<close> call, and the \<open>UNAME26\<close> bit is
  set in the state it ends in.
\<close>

theorem nested_invocation_accepted:
  assumes contract: "\<And>k. personality sys (PER_LINUX sys OR UNAME26) k =
             (sint (persona k), k\<lparr>persona := PER_LINUX sys OR UNAME26\<rparr>)"
    and base: "0 \<le> sint (PER_LINUX sys)"
    and failed_exec: "\<And>file args k k'. execvp sys file args k = Some k' \<Longrightarrow> persona k' = persona k"
    and first: "main sys ac (argv (prog # self # target # rest)) k =
                  (Replaced self (self # target # rest), w1)"
  shows "persona (kern w1) = PER_LINUX sys OR UNAME26
       \<and> 0 \<le> sint (PER_LINUX sys OR UNAME26)
       \<and> take 2 (trace (snd (main sys ac' (argv (self # target # rest)) (kern w1)))) =
           [Personality (PER_LINUX sys OR UNAME26) (sint (PER_LINUX sys OR UNAME26)),
            Execvp target (target # rest)]
       \<and> persona (kern (snd (main sys ac' (argv (self # target # rest)) (kern w1)))) AND UNAME26 =
           UNAME26"
proof -
  let ?req = "PER_LINUX sys OR UNAME26"
  have nonneg: "0 \<le> sint ?req"
    using base by (simp add: sint_or_uname26)
  have w1: "persona (kern w1) = ?req"
    using first by (auto simp: main_target [OF contract] split: if_splits option.splits)
  have second: "main sys ac' (argv (self # target # rest)) (kern w1) =
      (case execvp sys target (target # rest) ((kern w1)\<lparr>persona := ?req\<rparr>) of
         None \<Rightarrow>
           (Replaced target (target # rest),
            \<lparr>kern = (kern w1)\<lparr>persona := ?req\<rparr>,
             trace = [Personality ?req (sint ?req), Execvp target (target # rest)]\<rparr>)
       | Some k2 \<Rightarrow>
           (Exit 1,
            \<lparr>kern = k2,
             trace = [Personality ?req (sint ?req), Execvp target (target # rest),
                      Stderr (''Cannot execute '' @ target @ '': '' @
                              strerror sys (errno k2) @ ''\<newline>'')]\<rparr>))"
    using nonneg by (simp add: main_target [OF contract] w1 split: option.split)
  have "persona (kern (snd (main sys ac' (argv (self # target # rest)) (kern w1)))) = ?req"
    by (auto simp: second split: option.split dest: failed_exec)
  moreover have "?req AND UNAME26 = UNAME26"
    by (rule bit_word_eqI) (auto simp: bit_and_iff bit_or_iff)
  ultimately show ?thesis
    using nonneg w1 by (simp add: second split: option.split)
qed

theorem nested_invocation_accepted_witness:
  "main os_example 3 (argv [''uname26'', ''uname26'', ''/bin/echo'']) k_start =
     (Replaced ''uname26'' [''uname26'', ''/bin/echo''],
      \<lparr>kern = \<lparr>persona = 0x0020000, errno = 0\<rparr>,
       trace = [Personality 0x0020000 0, Execvp ''uname26'' [''uname26'', ''/bin/echo'']]\<rparr>)
   \<and> take 2 (trace (snd (main os_example 2 (argv [''uname26'', ''/bin/echo''])
                \<lparr>persona = 0x0020000, errno = 0\<rparr>))) =
       [Personality 0x0020000 0x0020000, Execvp ''/bin/echo'' [''/bin/echo'']]
   \<and> persona (kern (snd (main os_example 2 (argv [''uname26'', ''/bin/echo''])
                \<lparr>persona = 0x0020000, errno = 0\<rparr>))) AND UNAME26 = UNAME26"
proof -
  have contract: "\<And>k. personality os_example (PER_LINUX os_example OR UNAME26) k =
      (sint (persona k), k\<lparr>persona := PER_LINUX os_example OR UNAME26\<rparr>)"
    by (simp add: os_example_def)
  have base: "0 \<le> sint (PER_LINUX os_example)"
    by (simp add: os_example_def)
  have failed_exec: "\<And>file args k k'. execvp os_example file args k = Some k' \<Longrightarrow>
      persona k' = persona k"
    by (auto simp: os_example_def split: if_splits)
  have first: "main os_example 3 (argv [''uname26'', ''uname26'', ''/bin/echo'']) k_start =
     (Replaced ''uname26'' [''uname26'', ''/bin/echo''],
      \<lparr>kern = \<lparr>persona = 0x0020000, errno = 0\<rparr>,
       trace = [Personality 0x0020000 0, Execvp ''uname26'' [''uname26'', ''/bin/echo'']]\<rparr>)"
    by (simp add: main_def argv_def c_index_def call_personality_def call_execvp_def
        emit_def os_example_def k_start_def UNAME26_def)
  show ?thesis
    using nested_invocation_accepted [OF contract base failed_exec first, where ac' = 2] first
    by (simp add: os_example_def UNAME26_def)
qed

subsection \<open>The guard and the argument count\<close>

text \<open>
  C9. The run does not depend on \<open>ac\<close>: the guard reads \<^verbatim>\<open>av[1]\<close> whatever the count.
  In the vector of \<open>ac\<close> strings and the terminating null pointer, that cell exists
  exactly when \<open>ac\<close> is at least 1; for the program name alone it is the terminating
  null pointer, which is how the missing target shows. For the empty vector
  (\<open>ac = 0\<close>) the read is outside the array and the behaviour is undefined.
\<close>

theorem guard_reads_av1_without_ac:
  "main sys ac av k = main sys ac' av k
   \<and> (c_index (argv ss) 1 \<noteq> None) = (1 \<le> length ss)
   \<and> c_index (argv [prog]) 1 = Some None
   \<and> main sys 0 (argv []) k = (Undefined, \<lparr>kern = k, trace = []\<rparr>)
   \<and> (fst (main sys (int (length ss)) (argv ss) k) = Undefined) = (length ss = 0)"
proof -
  have "(fst (main sys (int (length ss)) (argv ss) k) = Undefined) = (length ss = 0)"
  proof (cases ss)
    case Nil
    then show ?thesis
      by (simp add: main_def argv_def c_index_def)
  next
    case (Cons prog' args)
    then show ?thesis
      using outcome_with_program_name [of sys "int (length ss)" prog' args k] by auto
  qed
  moreover have "(c_index (argv ss) 1 \<noteq> None) = (1 \<le> length ss)"
    by (cases ss) (simp_all add: c_index_def argv_def)
  ultimately show ?thesis
    by (simp add: main_def argv_def c_index_def)
qed

end
